theory Spec2Isabelle
  imports Main "HOL-Library.Word"
begin

section \<open>Data model\<close>

text \<open>
  The contract is AssemblyScript: \<open>u64\<close> is an unsigned 64-bit integer whose \<open>+\<close>,
  \<open>-\<close> and \<open>*\<close> wrap modulo \<open>2 ^ 64\<close>, and whose \<open>/\<close> is the WebAssembly
  instruction \<open>i64.div_u\<close>: truncating, and a trap when the divisor is zero.
\<close>

type_synonym u64 = "64 word"

text \<open>
  The two ways a call can abort: the division trap, and the exception \<open>Key does not
  exist\<close> that \<open>Map.get\<close> throws for an absent key.
\<close>

datatype error = DivisionByZero | KeyDoesNotExist

text \<open>
  \<open>Token\<close> objects are shared: the registry's \<open>tokens\<close> map and every pool built
  from a name hold the same object, and \<open>addToken\<close> on a name already present
  creates a second object while older pools keep the first. Tokens therefore live in a
  store indexed by references; maps and pools hold references.
\<close>

type_synonym ref = nat

record Token =
  name :: string
  balance :: u64

record LiquidityPool =
  tokenA :: ref
  tokenB :: ref
  reserveA :: u64
  reserveB :: u64

text \<open>
  What the methods of a pool can touch outside the pool itself: the store of token
  objects (with the next unused reference) and the list of events given to
  \<open>generateEvent\<close>, oldest first.
\<close>

record runtime =
  heap :: "ref \<Rightarrow> Token"
  nextRef :: ref
  events :: "string list"

text \<open>
  The registry (class \<open>SwapToken\<close>) adds its two maps. A \<open>LiquidityPool\<close> object is
  only ever reachable from the one map slot it was stored in, so the map holds pools
  by value.
\<close>

record SwapToken = runtime +
  tokens :: "string \<rightharpoonup> ref"
  liquidityPools :: "string \<rightharpoonup> LiquidityPool"

text \<open>
  \<open>Map.get\<close> of AssemblyScript cannot return null for an absent key: it throws
  \<open>Key does not exist\<close>, which aborts the call. The values stored in the two maps are
  objects made by \<open>new\<close>, never null, so the null check that follows each \<open>get\<close> in the
  source never fires and has no branch in the model.
\<close>

definition map_get :: "('k \<rightharpoonup> 'v) \<Rightarrow> 'k \<Rightarrow> error + 'v" where
  "map_get m k = (case m k of None \<Rightarrow> Inl KeyDoesNotExist | Some v \<Rightarrow> Inr v)"

section \<open>Token\<close>

definition new_Token :: "string \<Rightarrow> Token" where
  "new_Token n = \<lparr>name = n, balance = 0\<rparr>"

text \<open>The field write \<open>t.balance = v\<close> on the object behind reference \<open>r\<close>.\<close>

definition set_balance :: "ref \<Rightarrow> u64 \<Rightarrow> 'a runtime_scheme \<Rightarrow> 'a runtime_scheme" where
  "set_balance r v s = s\<lparr>heap := (heap s)(r := (heap s r)\<lparr>balance := v\<rparr>)\<rparr>"

definition generateEvent :: "string \<Rightarrow> 'a runtime_scheme \<Rightarrow> 'a runtime_scheme" where
  "generateEvent msg s = s\<lparr>events := events s @ [msg]\<rparr>"

text \<open>Decimal rendering of a number, as string interpolation of a \<open>u64\<close> gives.\<close>

function decimal :: "nat \<Rightarrow> string" where
  "decimal n =
     (if n < 10 then [''0123456789'' ! n]
      else decimal (n div 10) @ [''0123456789'' ! (n mod 10)])"
  by pat_completeness auto
termination
  by (relation "measure id") auto

declare decimal.simps [simp del]

section \<open>LiquidityPool\<close>

definition pool_calculatePrice :: "LiquidityPool \<Rightarrow> 'a runtime_scheme \<Rightarrow> u64" where
  "pool_calculatePrice p s =
     (if reserveB p = 0 then 0
      else (reserveA p * balance (heap s (tokenB p))) div reserveB p)"

definition pool_addLiquidity ::
  "LiquidityPool \<Rightarrow> u64 \<Rightarrow> u64 \<Rightarrow> 'a runtime_scheme \<Rightarrow> LiquidityPool \<times> 'a runtime_scheme" where
  "pool_addLiquidity p amountA amountB s =
     (let s1 = set_balance (tokenA p) (balance (heap s (tokenA p)) + amountA) s;
          s2 = set_balance (tokenB p) (balance (heap s1 (tokenB p)) + amountB) s1
      in (p\<lparr>reserveA := reserveA p + amountA, reserveB := reserveB p + amountB\<rparr>, s2))"

definition calculateSwapAmountOut :: "LiquidityPool \<Rightarrow> Token \<Rightarrow> Token \<Rightarrow> u64 \<Rightarrow> error + u64" where
  "calculateSwapAmountOut p fromToken toToken amountIn =
     (let amountInWithFee = amountIn * 997;
          numerator = amountInWithFee * reserveB p;
          denominator = (balance fromToken * 1000) + amountInWithFee
      in if denominator = 0 then Inl DivisionByZero else Inr (numerator div denominator))"

definition swapTokens ::
  "LiquidityPool \<Rightarrow> ref \<Rightarrow> ref \<Rightarrow> u64 \<Rightarrow> 'a runtime_scheme
     \<Rightarrow> error + (LiquidityPool \<times> 'a runtime_scheme)" where
  "swapTokens p fromToken toToken amount s =
     (if balance (heap s fromToken) < amount then Inr (p, s)
      else
        case calculateSwapAmountOut p (heap s fromToken) (heap s toToken) amount of
          Inl e \<Rightarrow> Inl e
        | Inr amountOut \<Rightarrow>
            if amountOut = 0 then Inr (p, s)
            else
              let s1 = set_balance fromToken (balance (heap s fromToken) - amount) s;
                  s2 = set_balance toToken (balance (heap s1 toToken) + amountOut) s1;
                  p' = p\<lparr>reserveA := reserveA p + amount, reserveB := reserveB p - amountOut\<rparr>;
                  s3 = generateEvent
                         (''Swapped '' @ decimal (unat amount) @ '' '' @ name (heap s2 fromToken)
                            @ '' for '' @ decimal (unat amountOut) @ '' '' @ name (heap s2 toToken))
                         s2
              in Inr (p', s3))"

section \<open>SwapToken\<close>

definition new_SwapToken :: SwapToken where
  "new_SwapToken =
     \<lparr>heap = (\<lambda>_. new_Token []), nextRef = 0, events = [],
      tokens = Map.empty, liquidityPools = Map.empty\<rparr>"

definition poolKey :: "string \<Rightarrow> string \<Rightarrow> string" where
  "poolKey tokenAName tokenBName = tokenAName @ ''-'' @ tokenBName"

definition addToken :: "string \<Rightarrow> SwapToken \<Rightarrow> SwapToken" where
  "addToken n s =
     s\<lparr>heap := (heap s)(nextRef s := new_Token n),
       nextRef := Suc (nextRef s),
       tokens := (tokens s)(n \<mapsto> nextRef s)\<rparr>"

definition addLiquidityPool ::
  "string \<Rightarrow> string \<Rightarrow> u64 \<Rightarrow> u64 \<Rightarrow> SwapToken \<Rightarrow> error + SwapToken" where
  "addLiquidityPool tokenAName tokenBName rA rB s =
     (case map_get (tokens s) tokenAName of
        Inl e \<Rightarrow> Inl e
      | Inr ta \<Rightarrow>
          (case map_get (tokens s) tokenBName of
             Inl e \<Rightarrow> Inl e
           | Inr tb \<Rightarrow>
               Inr (s\<lparr>liquidityPools := (liquidityPools s)
                         (poolKey tokenAName tokenBName \<mapsto>
                            \<lparr>tokenA = ta, tokenB = tb, reserveA = rA, reserveB = rB\<rparr>)\<rparr>)))"

definition getTokenBalance :: "string \<Rightarrow> SwapToken \<Rightarrow> error + u64" where
  "getTokenBalance tokenName s =
     (case map_get (tokens s) tokenName of
        Inl e \<Rightarrow> Inl e
      | Inr t \<Rightarrow> Inr (balance (heap s t)))"

definition calculatePrice :: "string \<Rightarrow> string \<Rightarrow> SwapToken \<Rightarrow> error + u64" where
  "calculatePrice tokenAName tokenBName s =
     (case map_get (liquidityPools s) (poolKey tokenAName tokenBName) of
        Inl e \<Rightarrow> Inl e
      | Inr p \<Rightarrow> Inr (pool_calculatePrice p s))"

definition addLiquidity ::
  "string \<Rightarrow> string \<Rightarrow> u64 \<Rightarrow> u64 \<Rightarrow> SwapToken \<Rightarrow> error + SwapToken" where
  "addLiquidity tokenAName tokenBName amountA amountB s =
     (case map_get (liquidityPools s) (poolKey tokenAName tokenBName) of
        Inl e \<Rightarrow> Inl e
      | Inr p \<Rightarrow>
          (case pool_addLiquidity p amountA amountB s of
             (p', s') \<Rightarrow>
               Inr (s'\<lparr>liquidityPools :=
                        (liquidityPools s')(poolKey tokenAName tokenBName \<mapsto> p')\<rparr>)))"

definition swapTheToken ::
  "string \<Rightarrow> string \<Rightarrow> string \<Rightarrow> string \<Rightarrow> u64 \<Rightarrow> SwapToken \<Rightarrow> error + SwapToken" where
  "swapTheToken tokenAName tokenBName fromTokenName toTokenName amount s =
     (case map_get (liquidityPools s) (poolKey tokenAName tokenBName) of
        Inl e \<Rightarrow> Inl e
      | Inr p \<Rightarrow>
          (case map_get (tokens s) fromTokenName of
             Inl e \<Rightarrow> Inl e
           | Inr fromToken \<Rightarrow>
               (case map_get (tokens s) toTokenName of
                  Inl e \<Rightarrow> Inl e
                | Inr toToken \<Rightarrow>
                    (case swapTokens p fromToken toToken amount s of
                       Inl e \<Rightarrow> Inl e
                     | Inr (p', s') \<Rightarrow>
                         Inr (s'\<lparr>liquidityPools :=
                                  (liquidityPools s')(poolKey tokenAName tokenBName \<mapsto> p')\<rparr>)))))"

section \<open>Sequences of registry operations\<close>

datatype operation =
    AddToken string
  | AddLiquidityPool string string u64 u64
  | AddLiquidity string string u64 u64
  | SwapTheToken string string string string u64
  | GetTokenBalance string
  | CalculatePrice string string

fun step :: "operation \<Rightarrow> SwapToken \<Rightarrow> error + SwapToken" where
  "step (AddToken n) s = Inr (addToken n s)"
| "step (AddLiquidityPool a b rA rB) s = addLiquidityPool a b rA rB s"
| "step (AddLiquidity a b x y) s = addLiquidity a b x y s"
| "step (SwapTheToken a b f t x) s = swapTheToken a b f t x s"
| "step (GetTokenBalance n) s =
     (case getTokenBalance n s of Inl e \<Rightarrow> Inl e | Inr _ \<Rightarrow> Inr s)"
| "step (CalculatePrice a b) s =
     (case calculatePrice a b s of Inl e \<Rightarrow> Inl e | Inr _ \<Rightarrow> Inr s)"

text \<open>A trap or an exception ends the run, as it aborts the call in the source.\<close>

fun run :: "operation list \<Rightarrow> SwapToken \<Rightarrow> error + SwapToken" where
  "run [] s = Inr s"
| "run (x # xs) s = (case step x s of Inl e \<Rightarrow> Inl e | Inr s' \<Rightarrow> run xs s')"

text \<open>
  The registry the tests and the deployment start from: tokens \<open>A\<close> and \<open>B\<close>, both
  with balance 0, and a pool under \<open>A-B\<close> with reserves 100 and 200. It is what
  \<open>addToken("A")\<close>, \<open>addToken("B")\<close>, \<open>addLiquidityPool("A","B",100,200)\<close> build from the
  empty registry (lemma \<open>fresh_registry_built\<close>).
\<close>

definition fresh_registry :: SwapToken where
  "fresh_registry =
     (addToken ''B'' (addToken ''A'' new_SwapToken))
       \<lparr>liquidityPools := [''A-B'' \<mapsto> \<lparr>tokenA = 0, tokenB = 1, reserveA = 100, reserveB = 200\<rparr>]\<rparr>"

text \<open>The same registry with the two balances then written directly, as the test set-up does.\<close>

definition scenario :: "u64 \<Rightarrow> u64 \<Rightarrow> SwapToken" where
  "scenario balA balB = set_balance 1 balB (set_balance 0 balA fresh_registry)"

text \<open>What a test can observe of a registry with tokens \<open>A\<close>, \<open>B\<close> and pool \<open>A-B\<close>.\<close>

definition observe ::
  "SwapToken \<Rightarrow> (error + u64) \<times> (error + u64) \<times> u64 option \<times> u64 option \<times> string list" where
  "observe s =
     (getTokenBalance ''A'' s, getTokenBalance ''B'' s,
      map_option reserveA (liquidityPools s ''A-B''),
      map_option reserveB (liquidityPools s ''A-B''),
      events s)"


section \<open>Evaluation and helper lemmas\<close>

lemmas registry_defs =
  swapTheToken_def scenario_def fresh_registry_def addToken_def addLiquidityPool_def
  new_SwapToken_def poolKey_def set_balance_def swapTokens_def calculateSwapAmountOut_def
  new_Token_def getTokenBalance_def generateEvent_def map_get_def

lemmas eval_defs =
  registry_defs calculatePrice_def pool_calculatePrice_def addLiquidity_def
  pool_addLiquidity_def Let_def

lemma fresh_registry_built:
  "run [AddToken ''A'', AddToken ''B'', AddLiquidityPool ''A'' ''B'' 100 200] new_SwapToken
     = Inr fresh_registry"
  by (simp add: fresh_registry_def addToken_def addLiquidityPool_def new_SwapToken_def
      poolKey_def map_get_def)

lemma decimal_values: "decimal 100 = ''100''" "decimal 66 = ''66''"
  by (simp_all add: decimal.simps)

lemma swapTokens_insufficient:
  "balance (heap s f) < amount \<Longrightarrow> swapTokens p f t amount s = Inr (p, s)"
  by (simp add: swapTokens_def)

lemma swapTokens_zero_out:
  "calculateSwapAmountOut p (heap s f) (heap s t) amount = Inr 0
     \<Longrightarrow> swapTokens p f t amount s = Inr (p, s)"
  by (simp add: swapTokens_def)

lemma swapTheToken_unresolved:
  "liquidityPools r (poolKey a b) = None \<or> tokens r fn = None \<or> tokens r tn = None
     \<Longrightarrow> swapTheToken a b fn tn amount r = Inl KeyDoesNotExist"
  by (auto simp: swapTheToken_def map_get_def split: option.splits)

lemma swapTheToken_noop:
  assumes "liquidityPools r (poolKey a b) = Some p"
    and "tokens r fn = Some f" and "tokens r tn = Some t"
    and "swapTokens p f t amount r = Inr (p, r)"
  shows "swapTheToken a b fn tn amount r = Inr r"
  using assms by (simp add: swapTheToken_def map_get_def map_upd_triv)

text \<open>The quotient \<open>x * R / (B + x)\<close> over the natural numbers grows with \<open>x\<close>.\<close>

lemma quotient_mono:
  fixes x1 x2 B R :: nat
  assumes "x1 \<le> x2" and "0 < B + x1"
  shows "x1 * R div (B + x1) \<le> x2 * R div (B + x2)"
proof -
  define q where "q = x1 * R div (B + x1)"
  have q1: "q * (B + x1) \<le> x1 * R"
    unfolding q_def by simp
  have "q \<le> (B + x1) * R div (B + x1)"
    unfolding q_def by (rule div_le_mono) simp
  with assms(2) have qR: "q \<le> R" by simp
  obtain d where d: "x2 = x1 + d"
    using assms(1) by (auto simp: le_iff_add)
  have "q * (B + x2) = q * (B + x1) + q * d"
    by (simp add: d distrib_left)
  also have "\<dots> \<le> x1 * R + R * d"
    using q1 qR by (simp add: add_mono)
  also have "\<dots> = x2 * R"
    by (simp add: d distrib_right)
  finally have "q * (B + x2) \<le> x2 * R" .
  moreover have "0 < B + x2" using assms by linarith
  ultimately show ?thesis
    unfolding q_def by (simp add: less_eq_div_iff_mult_less_eq)
qed

text \<open>
  When neither the numerator nor the denominator of the swap formula exceeds
  \<open>2 ^ 64 - 1\<close>, the 64-bit products and the sum are the exact ones.
\<close>

lemma swap_formula_exact:
  fixes a B R :: u64
  assumes N: "unat a * 997 * unat R < 2 ^ 64"
    and D: "unat B * 1000 + unat a * 997 < 2 ^ 64"
  shows "unat (a * 997 * R) = unat a * 997 * unat R"
    and "unat (B * 1000 + a * 997) = unat B * 1000 + unat a * 997"
proof -
  have a: "unat (a * 997) = unat a * 997"
    using D by (simp add: unat_mult_lem [THEN iffD1])
  have b: "unat (B * 1000) = unat B * 1000"
    using D by (simp add: unat_mult_lem [THEN iffD1])
  show "unat (a * 997 * R) = unat a * 997 * unat R"
    using N a by (simp add: unat_mult_lem [THEN iffD1])
  show "unat (B * 1000 + a * 997) = unat B * 1000 + unat a * 997"
    using D a b by (simp add: unat_add_lem [THEN iffD1])
qed

lemma swap_denominator_nonzero:
  fixes a B :: u64
  assumes "unat (B * 1000 + a * 997) = unat B * 1000 + unat a * 997"
    and "0 < unat B * 1000 + unat a * 997"
  shows "B * 1000 + a * 997 \<noteq> 0"
  using assms by (metis less_numeral_extra(3) unat_0)

lemma pool_addLiquidity_twice:
  "(case pool_addLiquidity p x y s of (p1, s1) \<Rightarrow> pool_addLiquidity p1 u v s1)
     = pool_addLiquidity p (x + u) (y + v) s"
  by (cases "tokenA p = tokenB p")
    (simp_all add: pool_addLiquidity_def set_balance_def Let_def add_ac)

lemma addLiquidity_twice:
  "(case addLiquidity a b x y s of Inl e \<Rightarrow> Inl e | Inr s' \<Rightarrow> addLiquidity a b u v s')
     = addLiquidity a b (x + u) (y + v) s"
proof (cases "liquidityPools s (poolKey a b)")
  case None
  then show ?thesis by (simp add: addLiquidity_def map_get_def)
next
  case (Some p)
  then show ?thesis
    by (cases "tokenA p = tokenB p")
      (simp_all add: addLiquidity_def map_get_def pool_addLiquidity_def set_balance_def
        Let_def add_ac)
qed

lemma swapTokens_debit:
  assumes "swapTokens p f t a s = Inr (p', s')" and "events s' \<noteq> events s"
  shows "uint a \<le> uint (balance (heap s f))"
    and "f \<noteq> t \<Longrightarrow> uint (balance (heap s' f)) = uint (balance (heap s f)) - uint a"
  using assms
  by (auto simp: swapTokens_def Let_def set_balance_def generateEvent_def word_le_def
      uint_sub_if' not_less split: if_splits sum.splits)


section \<open>The swap scenario\<close>

text \<open>
  Claim C1. In the registry with tokens \<open>A\<close> (balance 200) and \<open>B\<close> (balance 400) and
  the pool \<open>A-B\<close> with reserves 100 and 200, \<open>swapTheToken("A","B","A","B",100)\<close>
  computes \<open>amountOut = 19940000 / 299700 = 66\<close> and ends with balances 100 and 466 and
  reserves 200 and 134; it emits the one event of a completed swap.
\<close>

theorem swap_scenario:
  "run [AddToken ''A'', AddToken ''B'', AddLiquidityPool ''A'' ''B'' 100 200] new_SwapToken
     = Inr fresh_registry \<and>
   observe (scenario 200 400) = (Inr 200, Inr 400, Some 100, Some 200, []) \<and>
   calculateSwapAmountOut \<lparr>tokenA = 0, tokenB = 1, reserveA = 100, reserveB = 200\<rparr>
       (heap (scenario 200 400) 0) (heap (scenario 200 400) 1) 100 = Inr 66 \<and>
   (100 * 997 * 200) div (200 * 1000 + 100 * 997) = (66 :: nat) \<and>
   map_sum id observe (swapTheToken ''A'' ''B'' ''A'' ''B'' 100 (scenario 200 400))
     = Inr (Inr 100, Inr 466, Some 200, Some 134, [''Swapped 100 A for 66 B''])"
proof (intro conjI)
  show "run [AddToken ''A'', AddToken ''B'', AddLiquidityPool ''A'' ''B'' 100 200] new_SwapToken
     = Inr fresh_registry"
    by (rule fresh_registry_built)
  show "observe (scenario 200 400) = (Inr 200, Inr 400, Some 100, Some 200, [])"
    by (simp add: registry_defs observe_def)
  show "calculateSwapAmountOut \<lparr>tokenA = 0, tokenB = 1, reserveA = 100, reserveB = 200\<rparr>
       (heap (scenario 200 400) 0) (heap (scenario 200 400) 1) 100 = Inr 66"
    by (simp add: registry_defs)
  show "(100 * 997 * 200) div (200 * 1000 + 100 * 997) = (66 :: nat)"
    by simp
  show "map_sum id observe (swapTheToken ''A'' ''B'' ''A'' ''B'' 100 (scenario 200 400))
     = Inr (Inr 100, Inr 466, Some 200, Some 134, [''Swapped 100 A for 66 B''])"
    by (simp add: registry_defs observe_def decimal_values)
qed

section \<open>The swap formula\<close>

text \<open>
  Claim C2, as amended. Whenever the 64-bit denominator
  \<open>fromToken.balance * 1000 + amountIn * 997\<close> is not zero, \<open>calculateSwapAmountOut\<close>
  returns \<open>(amountIn * 997 * reserveB) / (fromToken.balance * 1000 + amountIn * 997)\<close>
  with every product and the sum taken modulo \<open>2 ^ 64\<close> and the division truncating;
  the pool's \<open>reserveB\<close> is the reserve used whichever token is swapped. When the exact
  numerator and denominator both fit in 64 bits and the denominator is positive, the
  result is the exact quotient of the natural numbers.
\<close>

theorem calculateSwapAmountOut_formula:
  "(balance f * 1000 + a * 997 \<noteq> 0 \<longrightarrow>
      calculateSwapAmountOut p f t a
        = Inr ((a * 997 * reserveB p) div (balance f * 1000 + a * 997))) \<and>
   (unat a * 997 * unat (reserveB p) < 2 ^ 64 \<and>
    unat (balance f) * 1000 + unat a * 997 < 2 ^ 64 \<and>
    0 < unat (balance f) * 1000 + unat a * 997 \<longrightarrow>
      (\<exists>out. calculateSwapAmountOut p f t a = Inr out \<and>
         unat out = (unat a * 997 * unat (reserveB p))
                      div (unat (balance f) * 1000 + unat a * 997)))"
proof (intro conjI impI)
  assume "balance f * 1000 + a * 997 \<noteq> 0"
  then show "calculateSwapAmountOut p f t a
      = Inr ((a * 997 * reserveB p) div (balance f * 1000 + a * 997))"
    by (simp add: calculateSwapAmountOut_def Let_def)
next
  assume "unat a * 997 * unat (reserveB p) < 2 ^ 64 \<and>
    unat (balance f) * 1000 + unat a * 997 < 2 ^ 64 \<and>
    0 < unat (balance f) * 1000 + unat a * 997"
  then have N: "unat a * 997 * unat (reserveB p) < 2 ^ 64"
    and D: "unat (balance f) * 1000 + unat a * 997 < 2 ^ 64"
    and pos: "0 < unat (balance f) * 1000 + unat a * 997"
    by simp_all
  note e = swap_formula_exact [OF N D]
  have "balance f * 1000 + a * 997 \<noteq> 0"
    using e(2) pos by (rule swap_denominator_nonzero)
  then show "\<exists>out. calculateSwapAmountOut p f t a = Inr out \<and>
      unat out = (unat a * 997 * unat (reserveB p))
                   div (unat (balance f) * 1000 + unat a * 997)"
    by (simp add: calculateSwapAmountOut_def Let_def unat_div e)
qed

theorem calculateSwapAmountOut_formula_witness:
  "balance \<lparr>name = ''A'', balance = 200\<rparr> * 1000 + 100 * 997 \<noteq> (0 :: u64) \<and>
   unat (100 :: u64) * 997 * unat (200 :: u64) < 2 ^ 64 \<and>
   unat (200 :: u64) * 1000 + unat (100 :: u64) * 997 < 2 ^ 64 \<and>
   0 < unat (200 :: u64) * 1000 + unat (100 :: u64) * 997 \<and>
   calculateSwapAmountOut \<lparr>tokenA = 0, tokenB = 1, reserveA = 100, reserveB = 200\<rparr>
      \<lparr>name = ''A'', balance = 200\<rparr> \<lparr>name = ''B'', balance = 400\<rparr> 100 = Inr 66 \<and>
   (\<exists>out. calculateSwapAmountOut \<lparr>tokenA = 0, tokenB = 1, reserveA = 100, reserveB = 200\<rparr>
      \<lparr>name = ''A'', balance = 200\<rparr> \<lparr>name = ''B'', balance = 400\<rparr> 100 = Inr out \<and>
      unat out = 66)"
  using calculateSwapAmountOut_formula
    [of "\<lparr>name = ''A'', balance = 200\<rparr>" 100
        "\<lparr>tokenA = 0, tokenB = 1, reserveA = 100, reserveB = 200\<rparr>"
        "\<lparr>name = ''B'', balance = 400\<rparr>"]
  by simp

text \<open>
  The claim as stated, with the quotient of the integers, fails once a product wraps.
  With \<open>fromToken.balance = 2 ^ 63\<close>, \<open>reserveB = 200\<close> and \<open>amountIn = 2 ^ 63\<close> (an amount
  the balance covers), \<open>amountIn * 997\<close> wraps to \<open>2 ^ 63\<close>, the numerator
  \<open>2 ^ 63 * 200\<close> wraps to 0 and the denominator \<open>2 ^ 63 * 1000 + 2 ^ 63\<close> to \<open>2 ^ 63\<close>:
  the function returns 0, where the exact quotient is 99.
\<close>

theorem calculateSwapAmountOut_formula_counterexample:
  "calculateSwapAmountOut \<lparr>tokenA = 0, tokenB = 1, reserveA = 100, reserveB = 200\<rparr>
      \<lparr>name = ''A'', balance = 9223372036854775808\<rparr> \<lparr>name = ''B'', balance = 400\<rparr>
      9223372036854775808
     = Inr 0 \<and>
   (9223372036854775808 * 997 * 200)
      div (9223372036854775808 * 1000 + 9223372036854775808 * 997)
     = (99 :: nat)"
  by (simp add: calculateSwapAmountOut_def)

section \<open>Failed swaps\<close>

text \<open>
  Claim C3 asks that every failure of a swap be a silent no-op and never a raised
  error. The two guards of \<open>swapTokens\<close> are: with an insufficient balance, or with
  a computed \<open>amountOut\<close> of 0, the registry is returned as it was and no event is
  emitted. An unresolved pool key or token name is not: \<open>Map.get\<close> throws before the
  null check that was meant to return silently, so \<open>swapTheToken\<close> aborts with
  \<open>Key does not exist\<close>, in each of the three cases the repository's tests exercise
  (unknown pool, unknown source token, unknown target token).
\<close>

theorem swap_with_unresolved_name_aborts:
  "swapTheToken ''A'' ''C'' ''A'' ''B'' 100 (scenario 200 400) = Inl KeyDoesNotExist \<and>
   swapTheToken ''A'' ''B'' ''C'' ''B'' 100 (scenario 200 400) = Inl KeyDoesNotExist \<and>
   swapTheToken ''A'' ''B'' ''A'' ''C'' 100 (scenario 200 400) = Inl KeyDoesNotExist \<and>
   swapTheToken ''A'' ''B'' ''A'' ''B'' 100 (scenario 50 200) = Inr (scenario 50 200) \<and>
   swapTheToken ''A'' ''B'' ''A'' ''B'' 1 (scenario 200 400) = Inr (scenario 200 400)"
proof (intro conjI)
  let ?P = "\<lparr>tokenA = 0, tokenB = 1, reserveA = 100, reserveB = 200\<rparr>"
  have pool: "liquidityPools (scenario b1 b2) (poolKey ''A'' ''B'') = Some ?P"
    and tokA: "tokens (scenario b1 b2) ''A'' = Some 0"
    and tokB: "tokens (scenario b1 b2) ''B'' = Some 1" for b1 b2
    by (simp_all add: scenario_def fresh_registry_def addToken_def new_SwapToken_def
        poolKey_def set_balance_def)
  show "swapTheToken ''A'' ''C'' ''A'' ''B'' 100 (scenario 200 400) = Inl KeyDoesNotExist"
    by (rule swapTheToken_unresolved)
      (simp add: scenario_def fresh_registry_def addToken_def new_SwapToken_def poolKey_def
        set_balance_def)
  show "swapTheToken ''A'' ''B'' ''C'' ''B'' 100 (scenario 200 400) = Inl KeyDoesNotExist"
    by (rule swapTheToken_unresolved)
      (simp add: scenario_def fresh_registry_def addToken_def new_SwapToken_def poolKey_def
        set_balance_def)
  show "swapTheToken ''A'' ''B'' ''A'' ''C'' 100 (scenario 200 400) = Inl KeyDoesNotExist"
    by (rule swapTheToken_unresolved)
      (simp add: scenario_def fresh_registry_def addToken_def new_SwapToken_def poolKey_def
        set_balance_def)
  have "balance (heap (scenario 50 200) 0) < 100"
    by (simp add: scenario_def fresh_registry_def addToken_def new_SwapToken_def
        set_balance_def new_Token_def)
  then have "swapTokens ?P 0 1 100 (scenario 50 200) = Inr (?P, scenario 50 200)"
    by (rule swapTokens_insufficient)
  with pool tokA tokB
  show "swapTheToken ''A'' ''B'' ''A'' ''B'' 100 (scenario 50 200) = Inr (scenario 50 200)"
    by (rule swapTheToken_noop)
  have "calculateSwapAmountOut ?P (heap (scenario 200 400) 0) (heap (scenario 200 400) 1) 1
          = Inr 0"
    by (simp add: scenario_def fresh_registry_def addToken_def new_SwapToken_def
        set_balance_def new_Token_def calculateSwapAmountOut_def)
  then have "swapTokens ?P 0 1 1 (scenario 200 400) = Inr (?P, scenario 200 400)"
    by (rule swapTokens_zero_out)
  with pool tokA tokB
  show "swapTheToken ''A'' ''B'' ''A'' ''B'' 1 (scenario 200 400) = Inr (scenario 200 400)"
    by (rule swapTheToken_noop)
qed

section \<open>Division by zero in the swap path\<close>

text \<open>
  Claim C4 asks that the swap path never traps. It does: in the registry as deployed,
  token \<open>A\<close> has balance 0, a swap of amount 0 passes the balance guard (\<open>0 < 0\<close> is
  false), and the denominator \<open>0 * 1000 + 0 * 997\<close> is 0, so the unguarded division
  traps. \<open>calculatePrice\<close> guards its own division against a zero divisor;
  \<open>calculateSwapAmountOut\<close> does not.
\<close>

theorem swap_of_zero_traps:
  "run [AddToken ''A'', AddToken ''B'', AddLiquidityPool ''A'' ''B'' 100 200] new_SwapToken
     = Inr fresh_registry \<and>
   getTokenBalance ''A'' fresh_registry = Inr 0 \<and>
   calculateSwapAmountOut \<lparr>tokenA = 0, tokenB = 1, reserveA = 100, reserveB = 200\<rparr>
       (heap fresh_registry 0) (heap fresh_registry 1) 0 = Inl DivisionByZero \<and>
   swapTokens \<lparr>tokenA = 0, tokenB = 1, reserveA = 100, reserveB = 200\<rparr> 0 1 0 fresh_registry
     = Inl DivisionByZero \<and>
   swapTheToken ''A'' ''B'' ''A'' ''B'' 0 fresh_registry = Inl DivisionByZero"
  by (simp add: fresh_registry_built) (simp add: registry_defs)

section \<open>Unresolved names\<close>

text \<open>
  Claim C5 asks that unresolved names never raise an error: balance 0 for an unknown
  token, price 0 for an unknown pool, an unchanged registry for a swap naming either.
  The source writes the null checks for exactly that, but \<open>Map.get\<close> throws on the
  absent key before any of them is reached: on the registry as deployed, all three
  calls abort with \<open>Key does not exist\<close>.
\<close>

theorem unresolved_names_abort:
  "tokens fresh_registry ''Nonexistent'' = None \<and>
   getTokenBalance ''Nonexistent'' fresh_registry = Inl KeyDoesNotExist \<and>
   liquidityPools fresh_registry (poolKey ''A'' ''Nonexistent'') = None \<and>
   calculatePrice ''A'' ''Nonexistent'' fresh_registry = Inl KeyDoesNotExist \<and>
   swapTheToken ''A'' ''Nonexistent'' ''A'' ''B'' 100 fresh_registry = Inl KeyDoesNotExist"
  by (simp add: getTokenBalance_def calculatePrice_def swapTheToken_def map_get_def
      fresh_registry_def addToken_def new_SwapToken_def poolKey_def)

section \<open>The price\<close>

text \<open>
  Claim C6, as amended. \<open>calculatePrice\<close> of a pool returns 0 when \<open>reserveB = 0\<close> and
  otherwise \<open>(reserveA * tokenB.balance) / reserveB\<close> with the product taken modulo
  \<open>2 ^ 64\<close> and the division truncating; this is the exact quotient whenever the
  product fits in 64 bits. The registry's \<open>calculatePrice\<close> is that of the pool under
  the key, and for the fresh tokens \<open>A\<close>, \<open>B\<close> and the pool with reserves 100 and 200 it
  is \<open>(100 * 0) / 200 = 0\<close>.
\<close>

theorem calculatePrice_formula:
  "unat (pool_calculatePrice p s) =
     (if reserveB p = 0 then 0
      else (unat (reserveA p) * unat (balance (heap s (tokenB p)))) mod 2 ^ 64
             div unat (reserveB p)) \<and>
   (unat (reserveA p) * unat (balance (heap s (tokenB p))) < 2 ^ 64 \<longrightarrow>
      unat (pool_calculatePrice p s) =
        (if reserveB p = 0 then 0
         else unat (reserveA p) * unat (balance (heap s (tokenB p))) div unat (reserveB p))) \<and>
   (liquidityPools r (poolKey a b) = Some p \<longrightarrow>
      calculatePrice a b r = Inr (pool_calculatePrice p r)) \<and>
   calculatePrice ''A'' ''B'' fresh_registry = Inr 0"
  by (simp add: pool_calculatePrice_def calculatePrice_def map_get_def unat_div
      unat_word_ariths fresh_registry_def addToken_def new_SwapToken_def poolKey_def
      new_Token_def)

theorem calculatePrice_formula_witness:
  "unat (100 :: u64) * unat (balance (heap (scenario 200 400) 1)) < 2 ^ 64 \<and>
   liquidityPools (scenario 200 400) (poolKey ''A'' ''B'')
     = Some \<lparr>tokenA = 0, tokenB = 1, reserveA = 100, reserveB = 200\<rparr> \<and>
   unat (pool_calculatePrice \<lparr>tokenA = 0, tokenB = 1, reserveA = 100, reserveB = 200\<rparr>
           (scenario 200 400)) = 100 * 400 div 200 \<and>
   calculatePrice ''A'' ''B'' (scenario 200 400)
     = Inr (pool_calculatePrice \<lparr>tokenA = 0, tokenB = 1, reserveA = 100, reserveB = 200\<rparr>
         (scenario 200 400))"
  using calculatePrice_formula
    [of "\<lparr>tokenA = 0, tokenB = 1, reserveA = 100, reserveB = 200\<rparr>" "scenario 200 400"
        "scenario 200 400" "''A''" "''B''"]
  by (simp add: eval_defs)

text \<open>
  With the quotient of the integers the claim fails once the product wraps: after
  \<open>addLiquidityPool("A","B", 2 ^ 63, 0)\<close> and \<open>addLiquidity("A","B", 0, 2)\<close> the pool has
  \<open>reserveA = 2 ^ 63\<close>, \<open>reserveB = 2\<close> and \<open>tokenB.balance = 2\<close>; the product wraps to 0
  and the price returned is 0, where the exact quotient is \<open>2 ^ 63\<close>.
\<close>

theorem calculatePrice_formula_counterexample:
  "map_sum id observe
     (run [AddToken ''A'', AddToken ''B'',
           AddLiquidityPool ''A'' ''B'' 9223372036854775808 0,
           AddLiquidity ''A'' ''B'' 0 2] new_SwapToken)
     = Inr (Inr 0, Inr 2, Some 9223372036854775808, Some 2, []) \<and>
   map_sum id (calculatePrice ''A'' ''B'')
     (run [AddToken ''A'', AddToken ''B'',
           AddLiquidityPool ''A'' ''B'' 9223372036854775808 0,
           AddLiquidity ''A'' ''B'' 0 2] new_SwapToken)
     = Inr (Inr 0) \<and>
   (9223372036854775808 * 2) div 2 = (9223372036854775808 :: nat)"
  by (simp add: eval_defs observe_def)

section \<open>Monotonicity of the swap output\<close>

text \<open>
  Claim C7, as amended. For a fixed \<open>fromToken.balance\<close> and fixed reserves, and two
  amounts \<open>amountIn1 \<le> amountIn2\<close> such that for the larger one neither the exact
  numerator \<open>amountIn2 * 997 * reserveB\<close> nor the exact denominator
  \<open>balance * 1000 + amountIn2 * 997\<close> exceeds \<open>2 ^ 64 - 1\<close>, and the denominator for the
  smaller one is positive, both calls return and the output for \<open>amountIn1\<close> is at most
  the output for \<open>amountIn2\<close>.
\<close>

theorem calculateSwapAmountOut_mono:
  assumes le: "a1 \<le> a2"
    and N: "unat a2 * 997 * unat (reserveB p) < 2 ^ 64"
    and D: "unat (balance f) * 1000 + unat a2 * 997 < 2 ^ 64"
    and pos: "0 < unat (balance f) * 1000 + unat a1 * 997"
  shows "\<exists>o1 o2. calculateSwapAmountOut p f t a1 = Inr o1 \<and>
           calculateSwapAmountOut p f t a2 = Inr o2 \<and> o1 \<le> o2"
proof -
  let ?R = "reserveB p" and ?B = "balance f"
  have le': "unat a1 \<le> unat a2"
    using le by (simp add: word_le_nat_alt)
  have "unat a1 * 997 * unat ?R \<le> unat a2 * 997 * unat ?R"
    using le' by (intro mult_le_mono) simp_all
  then have N1: "unat a1 * 997 * unat ?R < 2 ^ 64"
    using N by (rule le_less_trans)
  have D1: "unat ?B * 1000 + unat a1 * 997 < 2 ^ 64"
    using le' D by simp
  note e1 = swap_formula_exact [OF N1 D1] and e2 = swap_formula_exact [OF N D]
  have d1: "?B * 1000 + a1 * 997 \<noteq> 0"
    using e1(2) pos by (rule swap_denominator_nonzero)
  have "0 < unat ?B * 1000 + unat a2 * 997"
    using pos le' by linarith
  with e2(2) have d2: "?B * 1000 + a2 * 997 \<noteq> 0"
    by (rule swap_denominator_nonzero)
  have "unat (a1 * 997 * ?R div (?B * 1000 + a1 * 997))
          \<le> unat (a2 * 997 * ?R div (?B * 1000 + a2 * 997))"
    using quotient_mono [of "unat a1 * 997" "unat a2 * 997" "unat ?B * 1000" "unat ?R"] le' pos
    by (simp add: unat_div e1 e2)
  then have "a1 * 997 * ?R div (?B * 1000 + a1 * 997)
               \<le> a2 * 997 * ?R div (?B * 1000 + a2 * 997)"
    by (simp add: word_le_nat_alt)
  with d1 d2 show ?thesis
    by (simp add: calculateSwapAmountOut_def Let_def)
qed

theorem calculateSwapAmountOut_mono_witness:
  "(100 :: u64) \<le> 150 \<and>
   unat (150 :: u64) * 997 * unat (200 :: u64) < 2 ^ 64 \<and>
   unat (200 :: u64) * 1000 + unat (150 :: u64) * 997 < 2 ^ 64 \<and>
   0 < unat (200 :: u64) * 1000 + unat (100 :: u64) * 997 \<and>
   (\<exists>o1 o2.
      calculateSwapAmountOut \<lparr>tokenA = 0, tokenB = 1, reserveA = 100, reserveB = 200\<rparr>
        \<lparr>name = ''A'', balance = 200\<rparr> \<lparr>name = ''B'', balance = 400\<rparr> 100 = Inr o1 \<and>
      calculateSwapAmountOut \<lparr>tokenA = 0, tokenB = 1, reserveA = 100, reserveB = 200\<rparr>
        \<lparr>name = ''A'', balance = 200\<rparr> \<lparr>name = ''B'', balance = 400\<rparr> 150 = Inr o2 \<and>
      o1 \<le> o2)"
  using calculateSwapAmountOut_mono
    [of 100 150 "\<lparr>tokenA = 0, tokenB = 1, reserveA = 100, reserveB = 200\<rparr>"
        "\<lparr>name = ''A'', balance = 200\<rparr>" "\<lparr>name = ''B'', balance = 400\<rparr>"]
  by simp

text \<open>
  Without the bound the claim fails: with balance 200 and \<open>reserveB = 200\<close>, the amount
  100 gives 66, and the larger amount \<open>2 ^ 63\<close>, whose numerator wraps to 0, gives 0.
\<close>

theorem calculateSwapAmountOut_mono_counterexample:
  "(100 :: u64) \<le> 9223372036854775808 \<and>
   calculateSwapAmountOut \<lparr>tokenA = 0, tokenB = 1, reserveA = 100, reserveB = 200\<rparr>
      \<lparr>name = ''A'', balance = 200\<rparr> \<lparr>name = ''B'', balance = 400\<rparr> 100 = Inr 66 \<and>
   calculateSwapAmountOut \<lparr>tokenA = 0, tokenB = 1, reserveA = 100, reserveB = 200\<rparr>
      \<lparr>name = ''A'', balance = 200\<rparr> \<lparr>name = ''B'', balance = 400\<rparr> 9223372036854775808
     = Inr 0 \<and>
   \<not> (66 :: u64) \<le> 0"
  by (simp add: calculateSwapAmountOut_def)


section \<open>Adding liquidity\<close>

text \<open>
  Claim C8. For every pool and token store, and all amounts \<open>x\<close>, \<open>y\<close>, \<open>u\<close>, \<open>v\<close>,
  \<open>addLiquidity(x, y)\<close> followed by \<open>addLiquidity(u, v)\<close> leaves the same balances and
  reserves as the one call \<open>addLiquidity(x + u, y + v)\<close>, and the two calls can be made
  in either order; likewise through the registry, where both sides abort alike when the
  pool key is unresolved. This holds also when the pool's two tokens are one object, and
  with the sums wrapping as 64-bit sums do.
\<close>

theorem addLiquidity_additive:
  "(case pool_addLiquidity p x y s of (p1, s1) \<Rightarrow> pool_addLiquidity p1 u v s1)
     = pool_addLiquidity p (x + u) (y + v) s \<and>
   (case pool_addLiquidity p x y s of (p1, s1) \<Rightarrow> pool_addLiquidity p1 u v s1)
     = (case pool_addLiquidity p u v s of (p1, s1) \<Rightarrow> pool_addLiquidity p1 x y s1) \<and>
   (case addLiquidity a b x y r of Inl e \<Rightarrow> Inl e | Inr r' \<Rightarrow> addLiquidity a b u v r')
     = addLiquidity a b (x + u) (y + v) r \<and>
   (case addLiquidity a b x y r of Inl e \<Rightarrow> Inl e | Inr r' \<Rightarrow> addLiquidity a b u v r')
     = (case addLiquidity a b u v r of Inl e \<Rightarrow> Inl e | Inr r' \<Rightarrow> addLiquidity a b x y r')"
proof (intro conjI)
  show "(case pool_addLiquidity p x y s of (p1, s1) \<Rightarrow> pool_addLiquidity p1 u v s1)
     = pool_addLiquidity p (x + u) (y + v) s"
    by (rule pool_addLiquidity_twice)
  show "(case pool_addLiquidity p x y s of (p1, s1) \<Rightarrow> pool_addLiquidity p1 u v s1)
     = (case pool_addLiquidity p u v s of (p1, s1) \<Rightarrow> pool_addLiquidity p1 x y s1)"
    by (simp only: pool_addLiquidity_twice add.commute [of x u] add.commute [of y v])
  show "(case addLiquidity a b x y r of Inl e \<Rightarrow> Inl e | Inr r' \<Rightarrow> addLiquidity a b u v r')
     = addLiquidity a b (x + u) (y + v) r"
    by (rule addLiquidity_twice)
  show "(case addLiquidity a b x y r of Inl e \<Rightarrow> Inl e | Inr r' \<Rightarrow> addLiquidity a b u v r')
     = (case addLiquidity a b u v r of Inl e \<Rightarrow> Inl e | Inr r' \<Rightarrow> addLiquidity a b x y r')"
    by (simp only: addLiquidity_twice add.commute [of x u] add.commute [of y v])
qed

section \<open>Balances never go below zero\<close>

text \<open>
  Claim C9. After every sequence of registry operations every token balance, read as an
  integer, is at least 0. The only subtraction from a balance is the debit of
  \<open>swapTokens\<close>, and whenever a swap takes effect (it emits its event) the amount is at
  most the balance of the token debited, so the debit is the exact difference of the
  integers and does not wrap.
\<close>

theorem balance_never_negative:
  "(run ops s = Inr s' \<longrightarrow> 0 \<le> uint (balance (heap s' r))) \<and>
   (swapTokens p f t a w = Inr (p', w') \<and> events w' \<noteq> events w \<longrightarrow>
      uint a \<le> uint (balance (heap w f)) \<and>
      (f \<noteq> t \<longrightarrow> uint (balance (heap w' f)) = uint (balance (heap w f)) - uint a))"
  using swapTokens_debit [of p f t a w p' w'] by simp

theorem balance_never_negative_witness:
  "(\<exists>s'. run [AddToken ''A'', AddToken ''B'', AddLiquidityPool ''A'' ''B'' 100 200,
              AddLiquidity ''A'' ''B'' 200 400, SwapTheToken ''A'' ''B'' ''A'' ''B'' 100]
            new_SwapToken = Inr s' \<and>
         0 \<le> uint (balance (heap s' 0))) \<and>
   (\<exists>p' w'. swapTokens \<lparr>tokenA = 0, tokenB = 1, reserveA = 100, reserveB = 200\<rparr> 0 1 100
               (scenario 200 400) = Inr (p', w') \<and>
            events w' \<noteq> events (scenario 200 400) \<and>
            uint (100 :: u64) \<le> uint (balance (heap (scenario 200 400) 0)) \<and>
            uint (balance (heap w' 0))
              = uint (balance (heap (scenario 200 400) 0)) - uint (100 :: u64))"
proof -
  let ?ops = "[AddToken ''A'', AddToken ''B'', AddLiquidityPool ''A'' ''B'' 100 200,
               AddLiquidity ''A'' ''B'' 200 400, SwapTheToken ''A'' ''B'' ''A'' ''B'' 100]"
  let ?P = "\<lparr>tokenA = 0, tokenB = 1, reserveA = 100, reserveB = 200\<rparr>"
  obtain s' where r: "run ?ops new_SwapToken = Inr s'"
    by (simp add: eval_defs)
  obtain p' w' where sw: "swapTokens ?P 0 1 100 (scenario 200 400) = Inr (p', w')"
    and ev: "events w' \<noteq> events (scenario 200 400)"
    by (simp add: registry_defs Let_def)
  from balance_never_negative [of ?ops new_SwapToken s' 0 ?P 0 1 100 "scenario 200 400" p' w']
    r sw ev
  show ?thesis by simp
qed

section \<open>The target token of the swap formula\<close>

text \<open>
  Claim C10. \<open>calculateSwapAmountOut\<close> does not depend on its \<open>toToken\<close> argument, nor on
  anything but \<open>amountIn\<close>, \<open>fromToken.balance\<close> and the pool's \<open>reserveB\<close>: the result is
  the same for any two target tokens, and replacing the pool's tokens and \<open>reserveA\<close> or
  the source token's name changes nothing.
\<close>

theorem calculateSwapAmountOut_ignores_toToken:
  "calculateSwapAmountOut p f t1 a = calculateSwapAmountOut p f t2 a \<and>
   calculateSwapAmountOut p f t1 a
     = calculateSwapAmountOut (p\<lparr>tokenA := x, tokenB := y, reserveA := z\<rparr>) (f\<lparr>name := n\<rparr>) t2 a"
  by (simp add: calculateSwapAmountOut_def)

end
